theory Spec2Isabelle
  imports Complex_Main "HOL-Library.Word"
begin

section \<open>Python values, exceptions and strings\<close>

text \<open>
  The module \<^verbatim>\<open>unstructured/documents/elements.py\<close> defines the element classes of
  a parsed document. A Python \<^verbatim>\<open>str\<close> is modelled by the bytes of its UTF-8 encoding
  (an Isabelle \<open>string\<close>), so \<^verbatim>\<open>text.encode()\<close> reads those bytes off; a float of
  the coordinate list is modelled by a real number (NaN is outside the model).
  Exceptions are values: a method that can raise returns \<open>exn + 'a\<close>, \<open>Inl\<close> the
  exception.
\<close>

type_synonym byte = "8 word"

datatype exn =
    ValueError string
  | AttributeError string
  | TypeError string

text \<open>What a cleaner may be handed and may return: any Python value; the ones needed here.\<close>

datatype pyval = PyStr string | PyNone | PyBool bool | PyInt int

text \<open>\<^verbatim>\<open>isinstance(v, str)\<close>\<close>

fun is_str :: "pyval \<Rightarrow> bool" where
  "is_str (PyStr s) = True"
| "is_str v = False"

definition encode :: "string \<Rightarrow> byte list" where
  "encode s = map (\<lambda>c. of_nat (of_char c)) s"

subsection \<open>The digest\<close>

text \<open>
  \<^verbatim>\<open>hashlib.sha256\<close> belongs to the standard library, not to this module: the
  function from a message to its digest bytes is a parameter \<open>sha256\<close> of everything
  that constructs a text element. \<^verbatim>\<open>.hexdigest()\<close> renders the digest bytes as
  lowercase hexadecimal, two characters a byte, high nibble first.
\<close>

type_synonym hash_fn = "byte list \<Rightarrow> byte list"

definition hex_digit :: "nat \<Rightarrow> char" where
  "hex_digit n = ''0123456789abcdef'' ! (n mod 16)"

definition hex_byte :: "byte \<Rightarrow> string" where
  "hex_byte b = [hex_digit (unat b div 16), hex_digit (unat b mod 16)]"

definition hexdigest :: "byte list \<Rightarrow> string" where
  "hexdigest d = concat (map hex_byte d)"

section \<open>The element classes\<close>

text \<open>
  \<^verbatim>\<open>Union[str, NoID]\<close>: the identifier of an element is a string or the marker
  \<^verbatim>\<open>NoID()\<close>.
\<close>

datatype element_id = NoID | StrID string

text \<open>
  The class hierarchy is a hierarchy of records: \<^verbatim>\<open>Element\<close> has the fields
  \<^verbatim>\<open>id\<close> and \<^verbatim>\<open>coordinates\<close>, \<^verbatim>\<open>CheckBox\<close> adds \<^verbatim>\<open>checked\<close>,
  \<^verbatim>\<open>Text\<close> adds \<^verbatim>\<open>text\<close>. The subclasses of \<^verbatim>\<open>Text\<close> add no field and
  differ in the class attribute \<^verbatim>\<open>category\<close> only, so an instance records its class
  in \<open>cls\<close>. (The fields \<^verbatim>\<open>id\<close> and \<^verbatim>\<open>text\<close> are primed: \<open>id\<close> is a HOL
  constant and \<open>text\<close> a keyword.)
\<close>

record Element =
  id' :: element_id
  coordinates :: "real list option"

record CheckBox = Element +
  checked :: bool

datatype text_class =
  Text | FigureCaption | NarrativeText | ListItem | Title | Address | Image | PageBreak

record TextElement = Element +
  text' :: string
  cls :: text_class

fun category :: "text_class \<Rightarrow> string" where
  "category Text = ''Uncategorized''"
| "category FigureCaption = ''FigureCaption''"
| "category NarrativeText = ''NarrativeText''"
| "category ListItem = ''ListItem''"
| "category Title = ''Title''"
| "category Address = ''Address''"
| "category Image = ''Image''"
| "category PageBreak = ''PageBreak''"

text \<open>
  The objects that meet in a comparison: \<^verbatim>\<open>__eq__(self, other)\<close> takes any object
  as \<^verbatim>\<open>other\<close>.
\<close>

datatype obj = CheckBoxObj CheckBox | TextObj TextElement

subsection \<open>Constructors\<close>

text \<open>\<^verbatim>\<open>Element.__init__(self, element_id=NoID(), coordinates=None)\<close>\<close>

definition Element_init :: "element_id \<Rightarrow> real list option \<Rightarrow> Element" where
  "Element_init element_id coords = \<lparr>id' = element_id, coordinates = coords\<rparr>"

text \<open>\<^verbatim>\<open>CheckBox.__init__(self, element_id=NoID(), coordinates=None, checked=False)\<close>\<close>

definition CheckBox_init :: "element_id \<Rightarrow> real list option \<Rightarrow> bool \<Rightarrow> CheckBox" where
  "CheckBox_init element_id coords chk =
     \<lparr>id' = element_id, coordinates = coords, checked = chk\<rparr>"

text \<open>
  \<^verbatim>\<open>Text.__init__(self, text, element_id=NoID(), coordinates=None)\<close>, run on an
  instance of class \<open>c\<close>. A \<^verbatim>\<open>NoID\<close> identifier is replaced by the first 32
  characters of the hex digest of the text; then the base constructor is called with
  the identifier alone, so that its \<^verbatim>\<open>coordinates\<close> parameter takes its default
  \<^verbatim>\<open>None\<close>.
\<close>

definition Text_init ::
  "hash_fn \<Rightarrow> text_class \<Rightarrow> string \<Rightarrow> element_id \<Rightarrow> real list option \<Rightarrow> TextElement" where
  "Text_init sha256 c text element_id coords =
     (let element_id' =
            (case element_id of
               NoID \<Rightarrow> StrID (take 32 (hexdigest (sha256 (encode text))))
             | StrID s \<Rightarrow> StrID s)
      in Element.extend (Element_init element_id' None) (TextElement.fields text c))"

text \<open>\<^verbatim>\<open>PageBreak.__init__(self)\<close>: \<^verbatim>\<open>super().__init__(text="<PAGE BREAK>")\<close>\<close>

definition PageBreak_init :: "hash_fn \<Rightarrow> TextElement" where
  "PageBreak_init sha256 = Text_init sha256 PageBreak ''<PAGE BREAK>'' NoID None"

text \<open>
  The call \<^verbatim>\<open>c(...)\<close> of a text class with the arguments the caller supplies, an
  argument left out being \<open>None\<close> here. \<^verbatim>\<open>PageBreak.__init__\<close> has no parameter
  but \<^verbatim>\<open>self\<close>, so Python raises \<^verbatim>\<open>TypeError\<close> on any argument; the other
  classes inherit \<^verbatim>\<open>Text.__init__\<close>, where \<^verbatim>\<open>text\<close> is required and the two
  others have defaults.
\<close>

definition construct ::
  "hash_fn \<Rightarrow> text_class \<Rightarrow> string option \<Rightarrow> element_id option \<Rightarrow> real list option option
     \<Rightarrow> exn + TextElement" where
  "construct sha256 c text_arg id_arg coords_arg =
     (if c = PageBreak then
        (if text_arg = None \<and> id_arg = None \<and> coords_arg = None
         then Inr (PageBreak_init sha256)
         else Inl (TypeError ''__init__() takes 1 positional argument''))
      else
        (case text_arg of
           None \<Rightarrow> Inl (TypeError ''__init__() missing 1 required positional argument'')
         | Some text \<Rightarrow>
             Inr (Text_init sha256 c text
                    (case id_arg of None \<Rightarrow> NoID | Some i \<Rightarrow> i)
                    (case coords_arg of None \<Rightarrow> None | Some co \<Rightarrow> co))))"

subsection \<open>Attribute access\<close>

text \<open>
  \<^verbatim>\<open>other.checked\<close>, \<^verbatim>\<open>other.text\<close>, \<^verbatim>\<open>other.coordinates\<close> and
  \<^verbatim>\<open>other.category\<close> on an arbitrary object: Python raises
  \<^verbatim>\<open>AttributeError\<close> when the object has no such attribute.
\<close>

fun getattr_checked :: "obj \<Rightarrow> exn + bool" where
  "getattr_checked (CheckBoxObj b) = Inr (checked b)"
| "getattr_checked (TextObj t) = Inl (AttributeError ''checked'')"

fun getattr_text :: "obj \<Rightarrow> exn + string" where
  "getattr_text (TextObj t) = Inr (text' t)"
| "getattr_text (CheckBoxObj b) = Inl (AttributeError ''text'')"

fun getattr_category :: "obj \<Rightarrow> exn + string" where
  "getattr_category (TextObj t) = Inr (category (cls t))"
| "getattr_category (CheckBoxObj b) = Inl (AttributeError ''category'')"

fun getattr_coordinates :: "obj \<Rightarrow> exn + real list option" where
  "getattr_coordinates (CheckBoxObj b) = Inr (coordinates b)"
| "getattr_coordinates (TextObj t) = Inr (coordinates t)"

subsection \<open>Equality\<close>

text \<open>
  \<^verbatim>\<open>CheckBox.__eq__\<close>:
  \<^verbatim>\<open>(self.checked == other.checked) and (self.coordinates) == (other.coordinates)\<close>.
  The right operand of \<^verbatim>\<open>and\<close> is evaluated only when the left one is true.
\<close>

definition CheckBox_eq :: "CheckBox \<Rightarrow> obj \<Rightarrow> exn + bool" where
  "CheckBox_eq self other =
     (case getattr_checked other of
        Inl e \<Rightarrow> Inl e
      | Inr other_checked \<Rightarrow>
          if checked self = other_checked then
            (case getattr_coordinates other of
               Inl e \<Rightarrow> Inl e
             | Inr other_coordinates \<Rightarrow> Inr (coordinates self = other_coordinates))
          else Inr False)"

text \<open>
  \<^verbatim>\<open>Text.__eq__\<close>: the list of the three comparisons is built first, each element
  in turn, and \<^verbatim>\<open>all\<close> runs over the finished list.
\<close>

definition Text_eq :: "TextElement \<Rightarrow> obj \<Rightarrow> exn + bool" where
  "Text_eq self other =
     (case getattr_text other of
        Inl e \<Rightarrow> Inl e
      | Inr other_text \<Rightarrow>
          (case getattr_coordinates other of
             Inl e \<Rightarrow> Inl e
           | Inr other_coordinates \<Rightarrow>
               (case getattr_category other of
                  Inl e \<Rightarrow> Inl e
                | Inr other_category \<Rightarrow>
                    Inr (list_all (\<lambda>b. b)
                           [text' self = other_text,
                            coordinates self = other_coordinates,
                            category (cls self) = other_category]))))"

text \<open>
  \<^verbatim>\<open>a == b\<close> calls the \<^verbatim>\<open>__eq__\<close> of the class of \<open>a\<close>; neither method
  returns \<^verbatim>\<open>NotImplemented\<close>, so the reflected method is never tried, and an
  exception raised in the method reaches the caller.
\<close>

fun obj_eq :: "obj \<Rightarrow> obj \<Rightarrow> exn + bool" where
  "obj_eq (CheckBoxObj a) other = CheckBox_eq a other"
| "obj_eq (TextObj a) other = Text_eq a other"

subsection \<open>The cleaning pipeline\<close>

text \<open>
  A cleaner is any callable: it is handed a value and returns a value or raises. The
  loop of \<^verbatim>\<open>Text.apply\<close> feeds each cleaner what the one before returned; an
  exception of a cleaner leaves the loop and the method.
\<close>

type_synonym cleaner = "pyval \<Rightarrow> exn + pyval"

fun run_cleaners :: "cleaner list \<Rightarrow> pyval \<Rightarrow> exn + pyval" where
  "run_cleaners [] cleaned_text = Inr cleaned_text"
| "run_cleaners (cleaner # cleaners) cleaned_text =
     (case cleaner cleaned_text of
        Inl e \<Rightarrow> Inl e
      | Inr v \<Rightarrow> run_cleaners cleaners v)"

text \<open>
  \<^verbatim>\<open>Text.apply(self, *cleaners)\<close> returns the outcome of the call (\<open>Inr ()\<close> for
  a normal return) and the element as the call leaves it. The type test is made once,
  after the loop, and \<^verbatim>\<open>self.text\<close> is assigned last.
\<close>

definition Text_apply :: "cleaner list \<Rightarrow> TextElement \<Rightarrow> (exn + unit) \<times> TextElement" where
  "Text_apply cleaners self =
     (case run_cleaners cleaners (PyStr (text' self)) of
        Inl e \<Rightarrow> (Inl e, self)
      | Inr cleaned_text \<Rightarrow>
          (case cleaned_text of
             PyStr s \<Rightarrow> (Inr (), self\<lparr>text' := s\<rparr>)
           | _ \<Rightarrow> (Inl (ValueError ''Cleaner produced a non-string output.''), self)))"

text \<open>
  A cleaner \<open>c\<close> behaves as the string function \<open>f\<close>: handed a string it returns
  a string, the one \<open>f\<close> computes.
\<close>

definition behaves_as :: "cleaner \<Rightarrow> (string \<Rightarrow> string) \<Rightarrow> bool" where
  "behaves_as c f \<longleftrightarrow> (\<forall>s. c (PyStr s) = Inr (PyStr (f s)))"

text \<open>The fold of string functions from left to right, each on the result of the one before.\<close>

definition fold_cleaners :: "(string \<Rightarrow> string) list \<Rightarrow> string \<Rightarrow> string" where
  "fold_cleaners fs s = foldl (\<lambda>t f. f t) s fs"

subsection \<open>Sample cleaners and elements\<close>

text \<open>
  \<^verbatim>\<open>lambda s: s[::-1]\<close> and \<^verbatim>\<open>lambda s: s + "!"\<close>, which raise
  \<^verbatim>\<open>TypeError\<close> on a value that is no string; \<^verbatim>\<open>lambda s: None\<close>; and
  \<^verbatim>\<open>lambda s: "fixed"\<close>.
\<close>

definition str_cleaner :: "(string \<Rightarrow> string) \<Rightarrow> cleaner" where
  "str_cleaner f v =
     (case v of PyStr s \<Rightarrow> Inr (PyStr (f s)) | _ \<Rightarrow> Inl (TypeError ''not a str''))"

definition exclaim :: "string \<Rightarrow> string" where
  "exclaim s = s @ ''!''"

definition cleaner_reverse :: cleaner where
  "cleaner_reverse = str_cleaner rev"

definition cleaner_exclaim :: cleaner where
  "cleaner_exclaim = str_cleaner exclaim"

definition cleaner_none :: cleaner where
  "cleaner_none v = Inr PyNone"

definition cleaner_fixed :: cleaner where
  "cleaner_fixed v = Inr (PyStr ''fixed'')"

text \<open>A digest function to run the constructors on: 32 bytes, the message length in each.\<close>

definition toy_hash :: hash_fn where
  "toy_hash m = replicate 32 (of_nat (length m))"

definition abc_title :: TextElement where
  "abc_title = Text_init toy_hash Title ''abc'' NoID None"

definition unchecked_box :: CheckBox where
  "unchecked_box = CheckBox_init NoID None False"

section \<open>Basic facts\<close>

lemma category_eq_iff: "category a = category b \<longleftrightarrow> a = b"
  by (cases a; cases b; simp)

lemma Text_init_fields:
  "text' (Text_init h c t i coords) = t"
  "cls (Text_init h c t i coords) = c"
  "coordinates (Text_init h c t i coords) = None"
  "id' (Text_init h c t (StrID s) coords) = StrID s"
  "id' (Text_init h c t NoID coords) = StrID (take 32 (hexdigest (h (encode t))))"
  by (simp_all add: Text_init_def Element_init_def Element.extend_def TextElement.fields_def)

lemma encode_example: "encode ''abc'' = [97, 98, 99]"
  by (simp add: encode_def)

lemma hexdigest_example: "hexdigest [0, 171, 255] = ''00abff''"
  by (simp add: hexdigest_def hex_byte_def hex_digit_def)

lemma take_hexdigest:"take (2 * n) (hexdigest d) = hexdigest (take n d)"
proof (induction d arbitrary: n)
  case Nil
  then show ?case by (simp add: hexdigest_def)
next
  case (Cons b d)
  show ?case
  proof (cases n)
    case 0
    then show ?thesis by (simp add: hexdigest_def)
  next
    case (Suc m)
    have "take (2 * Suc m) (hex_byte b @ hexdigest d) = hex_byte b @ take (2 * m) (hexdigest d)"
      by (simp add: hex_byte_def)
    with Cons.IH [of m] Suc show ?thesis
      by (simp add: hexdigest_def)
  qed
qed

lemma hex_digit_lower: "hex_digit n \<in> set ''0123456789abcdef''"
proof -
  have "n mod 16 < length ''0123456789abcdef''" by simp
  then show ?thesis unfolding hex_digit_def by (rule nth_mem)
qed

lemma set_hexdigest: "set (hexdigest d) \<subseteq> set ''0123456789abcdef''"
  using hex_digit_lower by (auto simp: hexdigest_def hex_byte_def)

lemma length_hexdigest: "length (hexdigest d) = 2 * length d"
  by (induction d) (simp_all add: hexdigest_def hex_byte_def)

lemma run_cleaners_append:
  "run_cleaners (cs @ ds) v =
     (case run_cleaners cs v of Inl e \<Rightarrow> Inl e | Inr w \<Rightarrow> run_cleaners ds w)"
  by (induction cs arbitrary: v) (simp_all split: sum.splits)

lemma run_cleaners_behaves_as:
  "list_all2 behaves_as cleaners fs \<Longrightarrow>
   run_cleaners cleaners (PyStr s) = Inr (PyStr (fold_cleaners fs s))"
proof (induction cleaners fs arbitrary: s rule: list_all2_induct)
  case Nil
  then show ?case by (simp add: fold_cleaners_def)
next
  case (Cons c cs f fs)
  from Cons.hyps(1) have "c (PyStr s) = Inr (PyStr (f s))"
    by (simp add: behaves_as_def)
  with Cons.IH [of "f s"] show ?case
    by (simp add: fold_cleaners_def)
qed

lemma behaves_as_str_cleaner: "behaves_as (str_cleaner f) f"
  by (simp add: behaves_as_def str_cleaner_def)

lemma Text_apply_frame:
  "id' (snd (Text_apply ds e)) = id' e"
  "cls (snd (Text_apply ds e)) = cls e"
  "coordinates (snd (Text_apply ds e)) = coordinates e"
  by (simp_all add: Text_apply_def split: sum.splits pyval.splits)

section \<open>Identity\<close>

text \<open>
  C1. A text element of any class, built from the text \<open>t\<close> with the identifier left
  at \<^verbatim>\<open>NoID\<close>, gets as identifier the first 32 characters of the hex digest of the
  encoded text. These are the rendering of the first 16 bytes (128 bits) of the digest,
  the digits are lowercase hexadecimal, two a byte, and the identifier depends on the
  text alone: two constructions from the same text, whatever the class and the
  coordinates supplied, derive the same identifier.
\<close>

theorem Text_init_derives_id:
  "id' (Text_init sha256 c t NoID coords) = StrID (take 32 (hexdigest (sha256 (encode t))))
   \<and> take 32 (hexdigest (sha256 (encode t))) = hexdigest (take 16 (sha256 (encode t)))
   \<and> set (hexdigest (sha256 (encode t))) \<subseteq> set ''0123456789abcdef''
   \<and> length (hexdigest (sha256 (encode t))) = 2 * length (sha256 (encode t))
   \<and> id' (Text_init sha256 c t NoID coords) = id' (Text_init sha256 c2 t NoID coords2)"
proof -
  have "take (2 * 16) (hexdigest (sha256 (encode t))) = hexdigest (take 16 (sha256 (encode t)))"
    by (rule take_hexdigest)
  then have "take 32 (hexdigest (sha256 (encode t))) = hexdigest (take 16 (sha256 (encode t)))"
    by simp
  then show ?thesis
    using set_hexdigest by (simp add: Text_init_fields length_hexdigest)
qed

text \<open>
  C9. A text element built with an explicit identifier string \<open>s\<close> has exactly
  \<open>s\<close> as identifier, whatever its text; the digest plays no part: the element built
  is the same under any digest function.
\<close>

theorem Text_init_explicit_id:
  "id' (Text_init h c t (StrID s) coords) = StrID s
   \<and> Text_init h c t (StrID s) coords = Text_init h2 c t (StrID s) coords"
  by (rule conjI) (simp add: Text_init_fields, simp add: Text_init_def)

section \<open>Construction\<close>

text \<open>
  C7. Whatever is passed for \<^verbatim>\<open>coordinates\<close>, a text element leaves its constructor
  with \<^verbatim>\<open>coordinates\<close> equal to \<^verbatim>\<open>None\<close>: \<^verbatim>\<open>Text.__init__\<close> does not hand the
  argument on to \<^verbatim>\<open>Element.__init__\<close>. This holds of the constructor run on any class
  and of every call of a text class that returns an element.
\<close>

theorem Text_init_discards_coordinates:
  "coordinates (Text_init h c t i coords) = None
   \<and> (construct h c text_arg id_arg coords_arg = Inr e \<longrightarrow> coordinates e = None)"
  by (auto simp: construct_def PageBreak_init_def Text_init_fields split: if_splits option.splits)

theorem Text_init_discards_coordinates_witness:
  "construct toy_hash Title (Some ''abc'') None (Some (Some [0, 0, 10, 20]))
     = Inr (Text_init toy_hash Title ''abc'' NoID (Some [0, 0, 10, 20]))
   \<and> coordinates (Text_init toy_hash Title ''abc'' NoID (Some [0, 0, 10, 20])) = None"
proof -
  have built: "construct toy_hash Title (Some ''abc'') None (Some (Some [0, 0, 10, 20]))
     = Inr (Text_init toy_hash Title ''abc'' NoID (Some [0, 0, 10, 20]))"
    by (simp add: construct_def)
  with Text_init_discards_coordinates [of toy_hash Title "''abc''" NoID "Some [0, 0, 10, 20]"
      "Some ''abc''" None "Some (Some [0, 0, 10, 20])"
      "Text_init toy_hash Title ''abc'' NoID (Some [0, 0, 10, 20])"]
  show ?thesis
    by simp
qed

text \<open>
  C8. \<^verbatim>\<open>PageBreak()\<close> returns an element whose text is the sentinel
  \<^verbatim>\<open><PAGE BREAK>\<close> and whose category is \<^verbatim>\<open>PageBreak\<close>; a call that supplies a
  text is refused with \<^verbatim>\<open>TypeError\<close>, whatever its other arguments.
\<close>

theorem PageBreak_sentinel:
  "construct h PageBreak None None None = Inr (PageBreak_init h)
   \<and> text' (PageBreak_init h) = ''<PAGE BREAK>''
   \<and> category (cls (PageBreak_init h)) = ''PageBreak''
   \<and> construct h PageBreak (Some t) id_arg coords_arg
       = Inl (TypeError ''__init__() takes 1 positional argument'')"
  by (simp add: construct_def PageBreak_init_def Text_init_fields)

section \<open>Equality\<close>

text \<open>
  C6. Two check boxes are equal exactly when their \<^verbatim>\<open>checked\<close> fields are equal and
  their \<^verbatim>\<open>coordinates\<close> are equal; the comparison returns a truth value, and
  replacing the identifier of either operand does not change it.
\<close>

theorem CheckBox_eq_fields:
  "CheckBox_eq a (CheckBoxObj b) = Inr (checked a = checked b \<and> coordinates a = coordinates b)
   \<and> CheckBox_eq (a\<lparr>id' := i\<rparr>) (CheckBoxObj (b\<lparr>id' := j\<rparr>)) = CheckBox_eq a (CheckBoxObj b)"
  by (simp add: CheckBox_eq_def)

text \<open>
  C5. Two text elements, of the same class or not, are equal exactly when their text,
  their coordinates and their category are equal. The identifier is not compared:
  replacing it in either operand changes nothing, and two elements built from the same
  text, coordinates and class with different explicit identifiers are equal. The
  comparison is reflexive and symmetric.
\<close>

theorem Text_eq_fields:
  "Text_eq a (TextObj b) =
     Inr (text' a = text' b \<and> coordinates a = coordinates b \<and> category (cls a) = category (cls b))
   \<and> Text_eq (a\<lparr>id' := i\<rparr>) (TextObj (b\<lparr>id' := j\<rparr>)) = Text_eq a (TextObj b)
   \<and> Text_eq (Text_init h c t (StrID s1) co) (TextObj (Text_init h c t (StrID s2) co)) = Inr True
   \<and> Text_eq a (TextObj a) = Inr True
   \<and> Text_eq a (TextObj b) = Text_eq b (TextObj a)"
  by (auto simp: Text_eq_def Text_init_fields)

text \<open>
  C2, as stated, fails: a check box compared with a text element does not yield
  "not equal". \<^verbatim>\<open>CheckBox.__eq__\<close> reads \<^verbatim>\<open>other.checked\<close> and
  \<^verbatim>\<open>Text.__eq__\<close> reads \<^verbatim>\<open>other.text\<close> without a test of the operand's class,
  so the comparison raises \<^verbatim>\<open>AttributeError\<close> in either direction.
\<close>

theorem obj_eq_incompatible_counterexample:
  "obj_eq (CheckBoxObj unchecked_box) (TextObj abc_title) \<noteq> Inr False
   \<and> obj_eq (TextObj abc_title) (CheckBoxObj unchecked_box) \<noteq> Inr False
   \<and> obj_eq (CheckBoxObj unchecked_box) (TextObj abc_title) = Inl (AttributeError ''checked'')
   \<and> obj_eq (TextObj abc_title) (CheckBoxObj unchecked_box) = Inl (AttributeError ''text'')"
  by (simp add: CheckBox_eq_def Text_eq_def)

text \<open>
  C2, amended. For every check box and every text element the comparison raises
  \<^verbatim>\<open>AttributeError\<close> in either direction, for the attribute the method on the left
  reads first; a comparison between two check boxes or between two text elements
  never raises and returns a truth value.
\<close>

theorem obj_eq_incompatible_raises:
  "obj_eq (CheckBoxObj b) (TextObj t) = Inl (AttributeError ''checked'')
   \<and> obj_eq (TextObj t) (CheckBoxObj b) = Inl (AttributeError ''text'')
   \<and> (\<exists>r. obj_eq (CheckBoxObj b) (CheckBoxObj b2) = Inr r)
   \<and> (\<exists>r. obj_eq (TextObj t) (TextObj t2) = Inr r)"
  by (auto simp: CheckBox_eq_def Text_eq_def)

section \<open>The cleaning pipeline\<close>

text \<open>
  C4. When every cleaner of the sequence behaves as a string function, \<^verbatim>\<open>apply\<close>
  returns normally and replaces the text by the fold of these functions, left to right,
  over the current text. Whatever the cleaners \<open>ds\<close> are and whether the call fails or
  not, identifier and class (hence category) are as before the call; an identifier
  derived from the text at construction stays the digest of that text. With no cleaner
  the element is unchanged.
\<close>

theorem Text_apply_fold:
  assumes "list_all2 behaves_as cleaners fs"
  shows "Text_apply cleaners e = (Inr (), e\<lparr>text' := fold_cleaners fs (text' e)\<rparr>)
     \<and> id' (snd (Text_apply ds e)) = id' e
     \<and> cls (snd (Text_apply ds e)) = cls e
     \<and> id' (snd (Text_apply ds (Text_init h c t NoID co)))
         = StrID (take 32 (hexdigest (h (encode t))))
     \<and> Text_apply [] e = (Inr (), e)"
proof -
  from assms
  have "run_cleaners cleaners (PyStr (text' e)) = Inr (PyStr (fold_cleaners fs (text' e)))"
    by (rule run_cleaners_behaves_as)
  then have "Text_apply cleaners e = (Inr (), e\<lparr>text' := fold_cleaners fs (text' e)\<rparr>)"
    by (simp add: Text_apply_def)
  moreover have "Text_apply [] e = (Inr (), e)"
    by (simp add: Text_apply_def)
  ultimately show ?thesis
    by (simp add: Text_apply_frame Text_init_fields)
qed

theorem Text_apply_fold_witness:
  "list_all2 behaves_as [cleaner_reverse, cleaner_exclaim] [rev, exclaim]
   \<and> Text_apply [cleaner_reverse, cleaner_exclaim] abc_title
       = (Inr (), abc_title\<lparr>text' := ''cba!''\<rparr>)
   \<and> id' (snd (Text_apply [cleaner_reverse, cleaner_exclaim] abc_title)) = id' abc_title"
proof -
  have impl: "list_all2 behaves_as [cleaner_reverse, cleaner_exclaim] [rev, exclaim]"
    by (simp add: cleaner_reverse_def cleaner_exclaim_def behaves_as_str_cleaner)
  have "fold_cleaners [rev, exclaim] (text' abc_title) = ''cba!''"
    by (simp add: fold_cleaners_def exclaim_def abc_title_def Text_init_fields)
  with Text_apply_fold [OF impl, of abc_title "[cleaner_reverse, cleaner_exclaim]"] impl
  show ?thesis
    by simp
qed

text \<open>
  C10. For cleaners \<open>f\<close> and \<open>g\<close> that behave as string functions, \<^verbatim>\<open>apply(f, g)\<close>
  leaves the same text as \<^verbatim>\<open>apply(f)\<close> followed by \<^verbatim>\<open>apply(g)\<close> on the same
  element; outcome and element agree altogether, and the text is \<open>g\<close> of \<open>f\<close> of
  the text before.
\<close>

theorem Text_apply_sequential:
  assumes "behaves_as f f'" and "behaves_as g g'"
  shows "text' (snd (Text_apply [f, g] e)) = text' (snd (Text_apply [g] (snd (Text_apply [f] e))))
     \<and> Text_apply [f, g] e = Text_apply [g] (snd (Text_apply [f] e))
     \<and> text' (snd (Text_apply [f, g] e)) = g' (f' (text' e))"
proof -
  from assms have f: "\<And>s. f (PyStr s) = Inr (PyStr (f' s))"
    and g: "\<And>s. g (PyStr s) = Inr (PyStr (g' s))"
    by (simp_all add: behaves_as_def)
  have both: "Text_apply [f, g] e = (Inr (), e\<lparr>text' := g' (f' (text' e))\<rparr>)"
    by (simp add: Text_apply_def f g)
  have first: "Text_apply [f] e = (Inr (), e\<lparr>text' := f' (text' e)\<rparr>)"
    by (simp add: Text_apply_def f)
  have second: "Text_apply [g] (e\<lparr>text' := f' (text' e)\<rparr>)
      = (Inr (), e\<lparr>text' := g' (f' (text' e))\<rparr>)"
    by (simp add: Text_apply_def g)
  from both first second show ?thesis
    by simp
qed

theorem Text_apply_sequential_witness:
  "behaves_as cleaner_reverse rev \<and> behaves_as cleaner_exclaim exclaim
   \<and> Text_apply [cleaner_reverse, cleaner_exclaim] abc_title
       = Text_apply [cleaner_exclaim] (snd (Text_apply [cleaner_reverse] abc_title))
   \<and> text' (snd (Text_apply [cleaner_reverse, cleaner_exclaim] abc_title)) = ''cba!''"
proof -
  have f: "behaves_as cleaner_reverse rev" and g: "behaves_as cleaner_exclaim exclaim"
    by (simp_all add: cleaner_reverse_def cleaner_exclaim_def behaves_as_str_cleaner)
  have val: "exclaim (rev (text' abc_title)) = ''cba!''"
    by (simp add: exclaim_def abc_title_def Text_init_fields)
  note seq = Text_apply_sequential [OF f g, of abc_title]
  from seq have same: "Text_apply [cleaner_reverse, cleaner_exclaim] abc_title
       = Text_apply [cleaner_exclaim] (snd (Text_apply [cleaner_reverse] abc_title))"
    by blast
  from seq have "text' (snd (Text_apply [cleaner_reverse, cleaner_exclaim] abc_title))
       = exclaim (rev (text' abc_title))"
    by blast
  then have "text' (snd (Text_apply [cleaner_reverse, cleaner_exclaim] abc_title)) = ''cba!''"
    by (simp only: val)
  with f g same show ?thesis
    by blast
qed

text \<open>
  C3, as stated, fails twice. First, \<^verbatim>\<open>apply(lambda s: None, lambda s: "fixed")\<close>: the
  first cleaner returns a value that is no string, yet the second cleaner is run on it
  and the call returns normally with the text \<^verbatim>\<open>fixed\<close>. Second,
  \<^verbatim>\<open>apply(lambda s: s[::-1], lambda s: None)\<close> on the text \<^verbatim>\<open>abc\<close>: the call raises
  \<^verbatim>\<open>ValueError\<close>, and the text is still \<^verbatim>\<open>abc\<close>, not the intermediate value
  \<^verbatim>\<open>cba\<close> that the first cleaner produced.
\<close>

theorem Text_apply_nonstring_counterexample:
  "cleaner_none (PyStr (text' abc_title)) = Inr PyNone
   \<and> \<not> is_str PyNone
   \<and> Text_apply [cleaner_none, cleaner_fixed] abc_title = (Inr (), abc_title\<lparr>text' := ''fixed''\<rparr>)
   \<and> cleaner_reverse (PyStr (text' abc_title)) = Inr (PyStr ''cba'')
   \<and> cleaner_none (PyStr ''cba'') = Inr PyNone
   \<and> Text_apply [cleaner_reverse, cleaner_none] abc_title =
       (Inl (ValueError ''Cleaner produced a non-string output.''), abc_title)
   \<and> text' abc_title \<noteq> ''cba''"
  by (simp add: Text_apply_def cleaner_none_def cleaner_fixed_def cleaner_reverse_def
      str_cleaner_def abc_title_def Text_init_fields)

text \<open>
  C3, amended. Each cleaner is run on what the one before returned, string or not, and
  the type is tested once, on the value the last cleaner returned: if that value is no
  string, \<^verbatim>\<open>apply\<close> raises \<^verbatim>\<open>ValueError\<close> and leaves the element, its text included,
  as it was before the call.
\<close>

theorem Text_apply_nonstring_final:
  assumes "run_cleaners cleaners (PyStr (text' e)) = Inr v" and "\<not> is_str v"
  shows "Text_apply cleaners e = (Inl (ValueError ''Cleaner produced a non-string output.''), e)"
  using assms by (cases v) (simp_all add: Text_apply_def)

theorem Text_apply_nonstring_final_witness:
  "run_cleaners [cleaner_reverse, cleaner_none] (PyStr (text' abc_title)) = Inr PyNone
   \<and> \<not> is_str PyNone
   \<and> Text_apply [cleaner_reverse, cleaner_none] abc_title =
       (Inl (ValueError ''Cleaner produced a non-string output.''), abc_title)"
proof -
  have run: "run_cleaners [cleaner_reverse, cleaner_none] (PyStr (text' abc_title)) = Inr PyNone"
    by (simp add: cleaner_none_def cleaner_reverse_def str_cleaner_def)
  have nonstr: "\<not> is_str PyNone"
    by simp
  from Text_apply_nonstring_final [OF run nonstr] run nonstr show ?thesis
    by simp
qed

end
